theory Spec2Isabelle
  imports Complex_Main
begin

unbundle bit_operations_syntax

section \<open>Python values, exceptions and the bus\<close>

text \<open>
  The exceptions a call into \<^verbatim>\<open>grovepi.py\<close> can end with. The module declares one
  exception class, \<^verbatim>\<open>GrovePiException\<close>; everything else is an exception of Python
  itself that the module does not catch. \<open>GrovePiException\<close> is raised in three shapes:
  \<^verbatim>\<open>raise GrovePiException\<close> (no argument), \<^verbatim>\<open>raise GrovePiException(e)\<close> (wrapping a
  caught exception) and \<^verbatim>\<open>raise GrovePiException("NaN")\<close> (a message).
\<close>

datatype builtin_error =
    IOError string
  | TypeError
  | IndexError
  | ValueError
  | ZeroDivisionError
  | OverflowError
  | StructError

datatype exc_args = NoArgs | Cause builtin_error | Message string

datatype exn = GrovePiException exc_args | Builtin builtin_error

text \<open>The class of an exception: what an \<^verbatim>\<open>except\<close> clause of the caller matches on.\<close>

fun builtin_class :: "builtin_error \<Rightarrow> string" where
  "builtin_class (IOError d) = ''IOError''"
| "builtin_class TypeError = ''TypeError''"
| "builtin_class IndexError = ''IndexError''"
| "builtin_class ValueError = ''ValueError''"
| "builtin_class ZeroDivisionError = ''ZeroDivisionError''"
| "builtin_class OverflowError = ''OverflowError''"
| "builtin_class StructError = ''struct.error''"

fun exn_class :: "exn \<Rightarrow> string" where
  "exn_class (GrovePiException a) = ''GrovePiException''"
| "exn_class (Builtin b) = builtin_class b"

text \<open>
  What the process does to the outside world, in order: the calls into the \<^verbatim>\<open>smbus\<close> object
  (address, command register and, for a write, the block handed over) and the calls of
  \<^verbatim>\<open>time.sleep\<close>, with the duration in milliseconds.
\<close>

datatype event =
    BusWrite int int "int list"
  | BusReadByte int
  | BusReadBlock int int
  | Sleep int

text \<open>
  The \<^verbatim>\<open>SMBus\<close> object is not part of the repository. It is modelled as a deterministic
  device: each call is answered as a function of everything that has happened so far,
  the call itself included. A write is acknowledged (\<open>None\<close>) or fails with an
  \<^verbatim>\<open>IOError\<close> carrying a diagnostic; a read delivers a value (\<open>Inr\<close>) or fails likewise
  (\<open>Inl\<close>). The device decides the length of the block it delivers.
\<close>

record smbus =
  write_reply :: "event list \<Rightarrow> string option"
  byte_reply :: "event list \<Rightarrow> string + int"
  block_reply :: "event list \<Rightarrow> string + int list"

text \<open>A device that answers every call the same way, for concrete runs.\<close>

definition steady_bus :: "string option \<Rightarrow> string + int \<Rightarrow> string + int list \<Rightarrow> smbus" where
  "steady_bus w b blk = \<lparr>write_reply = (\<lambda>_. w), byte_reply = (\<lambda>_. b), block_reply = (\<lambda>_. blk)\<rparr>"

text \<open>
  A computation takes the history of events and returns the value or the exception it
  ends with, and the extended history.
\<close>

type_synonym 'a io = "event list \<Rightarrow> (exn + 'a) \<times> event list"

definition ret :: "'a \<Rightarrow> 'a io" where
  "ret x tr = (Inr x, tr)"

definition raise :: "exn \<Rightarrow> 'a io" where
  "raise e tr = (Inl e, tr)"

definition io_bind :: "'a io \<Rightarrow> ('a \<Rightarrow> 'b io) \<Rightarrow> 'b io" where
  "io_bind m k tr = (case m tr of (Inl e, tr') \<Rightarrow> (Inl e, tr') | (Inr x, tr') \<Rightarrow> k x tr')"

text \<open>
  \<^verbatim>\<open>time.sleep\<close> raises \<^verbatim>\<open>ValueError\<close> on a negative duration and \<^verbatim>\<open>OverflowError\<close> on
  one that its clock type cannot hold. CPython keeps the duration as a signed 64-bit
  count of nanoseconds, so the longest sleep is \<open>2 ^ 63 - 1\<close> nanoseconds.
\<close>

definition sleep_max_ns :: int where
  "sleep_max_ns = 2 ^ 63 - 1"

definition time_sleep :: "int \<Rightarrow> unit io" where
  "time_sleep ms tr =
     (if ms < 0 then (Inl (Builtin ValueError), tr)
      else if ms * 1000000 > sleep_max_ns then (Inl (Builtin OverflowError), tr)
      else (Inr (), tr @ [Sleep ms]))"

text \<open>\<^verbatim>\<open>xs[i]\<close> for a literal index \<open>i \<ge> 0\<close>: \<^verbatim>\<open>IndexError\<close> beyond the end.\<close>

definition getitem :: "'a list \<Rightarrow> nat \<Rightarrow> 'a io" where
  "getitem xs i = (if i < length xs then ret (xs ! i) else raise (Builtin IndexError))"

text \<open>\<^verbatim>\<open>xs[a:b]\<close> for literal bounds \<open>0 \<le> a \<le> b\<close>: never raises, may be shorter than \<open>b - a\<close>.\<close>

definition slice :: "'a list \<Rightarrow> nat \<Rightarrow> nat \<Rightarrow> 'a list" where
  "slice xs a b = take (b - a) (drop a xs)"

section \<open>Constants of the module\<close>

definition I2C_ADDRESS :: int where "I2C_ADDRESS = 4"

definition dRead_cmd :: "int list" where "dRead_cmd = [1]"
definition dWrite_cmd :: "int list" where "dWrite_cmd = [2]"
definition aRead_cmd :: "int list" where "aRead_cmd = [3]"
definition aWrite_cmd :: "int list" where "aWrite_cmd = [4]"
definition pMode_cmd :: "int list" where "pMode_cmd = [5]"
definition uRead_cmd :: "int list" where "uRead_cmd = [7]"
definition version_cmd :: "int list" where "version_cmd = [8]"
definition acc_xyz_cmd :: "int list" where "acc_xyz_cmd = [20]"
definition rtc_getTime_cmd :: "int list" where "rtc_getTime_cmd = [30]"
definition dht_temp_cmd :: "int list" where "dht_temp_cmd = [40]"
definition ledbar_init_cmd :: "int list" where "ledbar_init_cmd = [50]"
definition ledbar_orient_cmd :: "int list" where "ledbar_orient_cmd = [51]"
definition ledbar_level_cmd :: "int list" where "ledbar_level_cmd = [52]"
definition ledbar_set_one_cmd :: "int list" where "ledbar_set_one_cmd = [53]"
definition ledbar_toggle_one_cmd :: "int list" where "ledbar_toggle_one_cmd = [54]"
definition ledbar_set_cmd :: "int list" where "ledbar_set_cmd = [55]"
definition ledbar_get_cmd :: "int list" where "ledbar_get_cmd = [56]"
definition fourDigitInit_cmd :: "int list" where "fourDigitInit_cmd = [70]"
definition fourDigitBrightness_cmd :: "int list" where "fourDigitBrightness_cmd = [71]"
definition fourDigitValue_cmd :: "int list" where "fourDigitValue_cmd = [72]"
definition fourDigitValueZeros_cmd :: "int list" where "fourDigitValueZeros_cmd = [73]"
definition fourDigitIndividualDigit_cmd :: "int list" where "fourDigitIndividualDigit_cmd = [74]"
definition fourDigitIndividualLeds_cmd :: "int list" where "fourDigitIndividualLeds_cmd = [75]"
definition fourDigitScore_cmd :: "int list" where "fourDigitScore_cmd = [76]"
definition fourDigitAnalogRead_cmd :: "int list" where "fourDigitAnalogRead_cmd = [77]"
definition fourDigitAllOn_cmd :: "int list" where "fourDigitAllOn_cmd = [78]"
definition fourDigitAllOff_cmd :: "int list" where "fourDigitAllOff_cmd = [79]"
definition storeColor_cmd :: "int list" where "storeColor_cmd = [90]"
definition chainableRgbLedInit_cmd :: "int list" where "chainableRgbLedInit_cmd = [91]"
definition chainableRgbLedTest_cmd :: "int list" where "chainableRgbLedTest_cmd = [92]"
definition chainableRgbLedSetPattern_cmd :: "int list" where "chainableRgbLedSetPattern_cmd = [93]"
definition chainableRgbLedSetModulo_cmd :: "int list" where "chainableRgbLedSetModulo_cmd = [94]"
definition chainableRgbLedSetLevel_cmd :: "int list" where "chainableRgbLedSetLevel_cmd = [95]"
definition ir_read_cmd :: "int list" where "ir_read_cmd = [21]"
definition ir_recv_pin_cmd :: "int list" where "ir_recv_pin_cmd = [22]"
definition dus_sensor_read_cmd :: "int list" where "dus_sensor_read_cmd = [10]"
definition dust_sensor_en_cmd :: "int list" where "dust_sensor_en_cmd = [14]"
definition dust_sensor_dis_cmd :: "int list" where "dust_sensor_dis_cmd = [15]"
definition encoder_read_cmd :: "int list" where "encoder_read_cmd = [11]"
definition encoder_en_cmd :: "int list" where "encoder_en_cmd = [16]"
definition encoder_dis_cmd :: "int list" where "encoder_dis_cmd = [17]"
definition flow_read_cmd :: "int list" where "flow_read_cmd = [12]"
definition flow_disable_cmd :: "int list" where "flow_disable_cmd = [13]"
definition flow_en_cmd :: "int list" where "flow_en_cmd = [18]"
definition unused :: int where "unused = 0"

section \<open>Transport functions\<close>

text \<open>
  Each of the three wraps the \<^verbatim>\<open>IOError\<close> of the bus in a \<^verbatim>\<open>GrovePiException\<close>.
  The block is handed to the bus as it is.
\<close>

definition write_i2c_block :: "smbus \<Rightarrow> int list \<Rightarrow> unit io" where
  "write_i2c_block bus block tr =
     (let tr' = tr @ [BusWrite I2C_ADDRESS 1 block] in
      case write_reply bus tr' of
        Some e \<Rightarrow> (Inl (GrovePiException (Cause (IOError e))), tr')
      | None \<Rightarrow> (Inr (), tr'))"

definition read_i2c_byte :: "smbus \<Rightarrow> int \<Rightarrow> int io" where
  "read_i2c_byte bus address tr =
     (let tr' = tr @ [BusReadByte address] in
      case byte_reply bus tr' of
        Inl e \<Rightarrow> (Inl (GrovePiException (Cause (IOError e))), tr')
      | Inr n \<Rightarrow> (Inr n, tr'))"

definition read_i2c_block :: "smbus \<Rightarrow> int \<Rightarrow> int list io" where
  "read_i2c_block bus address tr =
     (let tr' = tr @ [BusReadBlock address 1] in
      case block_reply bus tr' of
        Inl e \<Rightarrow> (Inl (GrovePiException (Cause (IOError e))), tr')
      | Inr number \<Rightarrow> (Inr number, tr'))"

section \<open>Python library functions the module calls\<close>

text \<open>
  \<^verbatim>\<open>try: body except (C1, ...) as e: handler\<close>: the handler runs on an exception of Python
  of one of the listed classes. \<^verbatim>\<open>GrovePiException\<close> derives from \<^verbatim>\<open>Exception\<close> only,
  so no handler of the module catches it.
\<close>

definition try_except :: "'a io \<Rightarrow> (builtin_error \<Rightarrow> bool) \<Rightarrow> (builtin_error \<Rightarrow> 'a io) \<Rightarrow> 'a io" where
  "try_except body catches handler tr =
     (case body tr of
        (Inl (Builtin b), tr') \<Rightarrow> if catches b then handler b tr' else (Inl (Builtin b), tr')
      | r \<Rightarrow> r)"

fun is_IOError :: "builtin_error \<Rightarrow> bool" where
  "is_IOError (IOError d) = True"
| "is_IOError b = False"

fun is_TypeError_or_IndexError :: "builtin_error \<Rightarrow> bool" where
  "is_TypeError_or_IndexError TypeError = True"
| "is_TypeError_or_IndexError IndexError = True"
| "is_TypeError_or_IndexError b = False"

text \<open>
  Floats. Finite values are idealised to reals (the rounding of each operation to a double
  is left out); the three special values are kept, since the module tests for NaN.
\<close>

datatype pyfloat = Finite real | PosInf | NegInf | NaN

fun isnan :: "pyfloat \<Rightarrow> bool" where
  "isnan NaN = True"
| "isnan f = False"

text \<open>Float division \<^verbatim>\<open>x / y\<close> and \<^verbatim>\<open>math.log(x)\<close> on finite arguments: both raise.\<close>

definition float_div :: "real \<Rightarrow> real \<Rightarrow> real io" where
  "float_div x y = (if y = 0 then raise (Builtin ZeroDivisionError) else ret (x / y))"

definition math_log :: "real \<Rightarrow> real io" where
  "math_log x = (if x \<le> 0 then raise (Builtin ValueError) else ret (ln x))"

text \<open>\<^verbatim>\<open>bytearray(xs)\<close> of a list of integers: \<^verbatim>\<open>ValueError\<close> unless each is in \<open>range(256)\<close>.\<close>

definition bytearray :: "int list \<Rightarrow> int list io" where
  "bytearray xs = (if list_all (\<lambda>x. 0 \<le> x \<and> x < 256) xs then ret xs else raise (Builtin ValueError))"

text \<open>
  \<^verbatim>\<open>struct.unpack('f', buf)[0]\<close>: \<^verbatim>\<open>struct.error\<close> unless the buffer has 4 bytes; otherwise
  the IEEE-754 single with that bit pattern, in the byte order of the host (little-endian
  on the Raspberry Pi), which converts to a Python float exactly.
\<close>

definition float32_of_bits :: "int \<Rightarrow> pyfloat" where
  "float32_of_bits w =
     (let s = w div 2 ^ 31; e = (w div 2 ^ 23) mod 256; m = w mod 2 ^ 23;
          sign = (if s = 0 then 1 else - 1 :: real)
      in if e = 255 then (if m = 0 then (if s = 0 then PosInf else NegInf) else NaN)
         else if e = 0 then Finite (sign * real_of_int m * 2 powr (- 149))
         else Finite (sign * real_of_int (2 ^ 23 + m) * 2 powr real_of_int (e - 150)))"

definition unpack_f :: "int list \<Rightarrow> pyfloat io" where
  "unpack_f buf =
     (if length buf \<noteq> 4 then raise (Builtin StructError)
      else ret (float32_of_bits (buf ! 0 + 256 * buf ! 1 + 65536 * buf ! 2 + 16777216 * buf ! 3)))"

text \<open>
  \<^verbatim>\<open>round(x, 2)\<close>: the value is rounded to two decimals, ties to the even digit; NaN and
  the infinities are returned as they are.
\<close>

definition round_half_even :: "real \<Rightarrow> int" where
  "round_half_even y =
     (let f = \<lfloor>y\<rfloor>; d = y - real_of_int f
      in if d < 1 / 2 then f else if d > 1 / 2 then f + 1 else if even f then f else f + 1)"

fun round2 :: "pyfloat \<Rightarrow> pyfloat" where
  "round2 (Finite x) = Finite (real_of_int (round_half_even (x * 100)) / 100)"
| "round2 f = f"

text \<open>\<^verbatim>\<open>"%s" % n\<close> for an integer \<open>n\<close>: its decimal digits.\<close>

fun str_nat :: "nat \<Rightarrow> string" where
  "str_nat n = (if n < 10 then [char_of (48 + n)] else str_nat (n div 10) @ [char_of (48 + n mod 10)])"

definition str_int :: "int \<Rightarrow> string" where
  "str_int n = (if n < 0 then CHR ''-'' # str_nat (nat (- n)) else str_nat (nat n))"

text \<open>\<^verbatim>\<open>number == -1\<close> for a list \<open>number\<close>: a list never equals an integer.\<close>

definition list_eq_int :: "int list \<Rightarrow> int \<Rightarrow> bool" where
  "list_eq_int xs n = False"

section \<open>Device operations\<close>

definition digital_read :: "smbus \<Rightarrow> int \<Rightarrow> int io" where
  "digital_read bus pin =
     io_bind (write_i2c_block bus (dRead_cmd @ [pin, unused, unused])) (\<lambda>_.
     io_bind (time_sleep 100) (\<lambda>_.
     io_bind (read_i2c_byte bus I2C_ADDRESS) (\<lambda>n.
     ret n)))"

definition digital_write :: "smbus \<Rightarrow> int \<Rightarrow> int \<Rightarrow> unit io" where
  "digital_write bus pin val = write_i2c_block bus (dWrite_cmd @ [pin, val, unused])"

text \<open>Any other mode falls through both branches and the function returns \<^verbatim>\<open>None\<close>.\<close>

definition pin_mode :: "smbus \<Rightarrow> int \<Rightarrow> string \<Rightarrow> unit io" where
  "pin_mode bus pin mode =
     (if mode = ''OUTPUT'' then write_i2c_block bus (pMode_cmd @ [pin, 1, unused])
      else if mode = ''INPUT'' then write_i2c_block bus (pMode_cmd @ [pin, 0, unused])
      else ret ())"

definition analog_read :: "smbus \<Rightarrow> int \<Rightarrow> int io" where
  "analog_read bus pin =
     io_bind (write_i2c_block bus (aRead_cmd @ [pin, unused, unused])) (\<lambda>_.
     io_bind (time_sleep 100) (\<lambda>_.
     io_bind (read_i2c_byte bus I2C_ADDRESS) (\<lambda>_.
     io_bind (read_i2c_block bus I2C_ADDRESS) (\<lambda>number.
     io_bind (time_sleep 100) (\<lambda>_.
     io_bind (getitem number 1) (\<lambda>hi.
     io_bind (getitem number 2) (\<lambda>lo.
     ret (hi * 256 + lo))))))))"

definition analog_write :: "smbus \<Rightarrow> int \<Rightarrow> int \<Rightarrow> unit io" where
  "analog_write bus pin val = write_i2c_block bus (aWrite_cmd @ [pin, val, unused])"

text \<open>The B value of the thermistor, chosen by the model string of \<open>temp\<close>.\<close>

definition temp_b_value :: "string \<Rightarrow> real" where
  "temp_b_value model =
     (if model = ''1.2'' then 4250
      else if model = ''1.1'' then 4250
      else 3975)"

definition temp :: "smbus \<Rightarrow> int \<Rightarrow> string \<Rightarrow> pyfloat io" where
  "temp bus pin model =
     (let b_value = temp_b_value model in
      io_bind (analog_read bus pin) (\<lambda>a.
      io_bind (float_div (real_of_int (1023 - a) * 10000) (real_of_int a)) (\<lambda>resistance.
      io_bind (math_log (resistance / 10000)) (\<lambda>l.
      io_bind (float_div 1 (l / b_value + 1 / 298.15)) (\<lambda>q.
      let t = Finite (q - 273.15) in
      if isnan t then raise (GrovePiException (Message ''NaN''))
      else ret t)))))"

definition ultrasonic_read :: "smbus \<Rightarrow> int \<Rightarrow> int io" where
  "ultrasonic_read bus pin =
     io_bind (write_i2c_block bus (uRead_cmd @ [pin, unused, unused])) (\<lambda>_.
     io_bind (time_sleep 200) (\<lambda>_.
     io_bind (read_i2c_byte bus I2C_ADDRESS) (\<lambda>_.
     io_bind (read_i2c_block bus I2C_ADDRESS) (\<lambda>number.
     io_bind (getitem number 1) (\<lambda>hi.
     io_bind (getitem number 2) (\<lambda>lo.
     ret (hi * 256 + lo)))))))"

definition version :: "smbus \<Rightarrow> string io" where
  "version bus =
     io_bind (write_i2c_block bus (version_cmd @ [unused, unused, unused])) (\<lambda>_.
     io_bind (time_sleep 100) (\<lambda>_.
     io_bind (read_i2c_byte bus I2C_ADDRESS) (\<lambda>_.
     io_bind (read_i2c_block bus I2C_ADDRESS) (\<lambda>number.
     io_bind (getitem number 1) (\<lambda>a.
     io_bind (getitem number 2) (\<lambda>b.
     io_bind (getitem number 3) (\<lambda>c.
     ret (str_int a @ ''.'' @ str_int b @ ''.'' @ str_int c))))))))"

definition acc_xyz :: "smbus \<Rightarrow> (int \<times> int \<times> int) io" where
  "acc_xyz bus =
     io_bind (write_i2c_block bus (acc_xyz_cmd @ [unused, unused, unused])) (\<lambda>_.
     io_bind (time_sleep 100) (\<lambda>_.
     io_bind (read_i2c_byte bus I2C_ADDRESS) (\<lambda>_.
     io_bind (read_i2c_block bus I2C_ADDRESS) (\<lambda>number.
     io_bind (getitem number 1) (\<lambda>n1.
     let number = (if n1 > 32 then number[1 := - (n1 - 224)] else number) in
     io_bind (getitem number 2) (\<lambda>n2.
     let number = (if n2 > 32 then number[2 := - (n2 - 224)] else number) in
     io_bind (getitem number 3) (\<lambda>n3.
     let number = (if n3 > 32 then number[3 := - (n3 - 224)] else number) in
     io_bind (getitem number 1) (\<lambda>x.
     io_bind (getitem number 2) (\<lambda>y.
     io_bind (getitem number 3) (\<lambda>z.
     ret (x, y, z)))))))))))"

definition rtc_get_time :: "smbus \<Rightarrow> int list io" where
  "rtc_get_time bus =
     io_bind (write_i2c_block bus (rtc_getTime_cmd @ [unused, unused, unused])) (\<lambda>_.
     io_bind (time_sleep 100) (\<lambda>_.
     io_bind (read_i2c_byte bus I2C_ADDRESS) (\<lambda>_.
     io_bind (read_i2c_block bus I2C_ADDRESS) (\<lambda>number.
     ret number))))"

text \<open>
  In \<open>dht\<close> only the two reads and the sleep after them are inside the \<^verbatim>\<open>try\<close>; the
  decoding that follows is not. The final \<^verbatim>\<open>float(t)\<close> and \<^verbatim>\<open>float(hum)\<close> are applied to
  floats and cannot raise, so their \<^verbatim>\<open>except ValueError\<close> is left out.
\<close>

definition dht :: "smbus \<Rightarrow> int \<Rightarrow> int \<Rightarrow> pyfloat list io" where
  "dht bus pin module_type =
     io_bind (write_i2c_block bus (dht_temp_cmd @ [pin, module_type, unused])) (\<lambda>_.
     io_bind (time_sleep 600) (\<lambda>_.
     io_bind (try_except
                (io_bind (read_i2c_byte bus I2C_ADDRESS) (\<lambda>_.
                 io_bind (read_i2c_block bus I2C_ADDRESS) (\<lambda>number.
                 io_bind (time_sleep 100) (\<lambda>_.
                 if list_eq_int number (- 1) then raise (GrovePiException NoArgs)
                 else ret number))))
                is_TypeError_or_IndexError
                (\<lambda>e. raise (GrovePiException (Cause e)))) (\<lambda>number.
     io_bind (bytearray (slice number 1 5)) (\<lambda>t_val.
     io_bind (bytearray (slice number 5 9)) (\<lambda>h_val.
     io_bind (unpack_f t_val) (\<lambda>tf.
     let t = round2 tf in
     io_bind (unpack_f h_val) (\<lambda>hf.
     let hum = round2 hf in
     if isnan t \<or> isnan hum then raise (GrovePiException (Message ''NaN''))
     else ret [t, hum])))))))"

definition ledbar_init :: "smbus \<Rightarrow> int \<Rightarrow> int \<Rightarrow> unit io" where
  "ledbar_init bus pin orientation = write_i2c_block bus (ledbar_init_cmd @ [pin, orientation, unused])"

definition ledbar_orientation :: "smbus \<Rightarrow> int \<Rightarrow> int \<Rightarrow> unit io" where
  "ledbar_orientation bus pin orientation =
     write_i2c_block bus (ledbar_orient_cmd @ [pin, orientation, unused])"

definition ledbar_set_level :: "smbus \<Rightarrow> int \<Rightarrow> int \<Rightarrow> unit io" where
  "ledbar_set_level bus pin level = write_i2c_block bus (ledbar_level_cmd @ [pin, level, unused])"

definition ledbar_set_led :: "smbus \<Rightarrow> int \<Rightarrow> int \<Rightarrow> int \<Rightarrow> unit io" where
  "ledbar_set_led bus pin led state = write_i2c_block bus (ledbar_set_one_cmd @ [pin, led, state])"

definition ledbar_toggle_led :: "smbus \<Rightarrow> int \<Rightarrow> int \<Rightarrow> unit io" where
  "ledbar_toggle_led bus pin led = write_i2c_block bus (ledbar_toggle_one_cmd @ [pin, led, unused])"

definition ledbar_set_bits :: "smbus \<Rightarrow> int \<Rightarrow> int \<Rightarrow> unit io" where
  "ledbar_set_bits bus pin state =
     (let byte1 = state AND 255;
          byte2 = drop_bit 8 state
      in write_i2c_block bus (ledbar_set_cmd @ [pin, byte1, byte2]))"

definition ledbar_get_bits :: "smbus \<Rightarrow> int \<Rightarrow> int io" where
  "ledbar_get_bits bus pin =
     io_bind (write_i2c_block bus (ledbar_get_cmd @ [pin, unused, unused])) (\<lambda>_.
     io_bind (time_sleep 200) (\<lambda>_.
     io_bind (read_i2c_byte bus 4) (\<lambda>_.
     io_bind (read_i2c_block bus 4) (\<lambda>block.
     io_bind (getitem block 1) (\<lambda>b1.
     io_bind (getitem block 2) (\<lambda>b2.
     ret (b1 XOR push_bit 8 b2)))))))"

definition four_digit_init :: "smbus \<Rightarrow> int \<Rightarrow> unit io" where
  "four_digit_init bus pin = write_i2c_block bus (fourDigitInit_cmd @ [pin, unused, unused])"

definition four_digit_number :: "smbus \<Rightarrow> int \<Rightarrow> int \<Rightarrow> bool \<Rightarrow> unit io" where
  "four_digit_number bus pin val leading_zero =
     (let byte1 = val AND 255;
          byte2 = drop_bit 8 val
      in io_bind (if leading_zero then write_i2c_block bus (fourDigitValue_cmd @ [pin, byte1, byte2])
                  else write_i2c_block bus (fourDigitValueZeros_cmd @ [pin, byte1, byte2])) (\<lambda>_.
         time_sleep 50))"

definition four_digit_brightness :: "smbus \<Rightarrow> int \<Rightarrow> int \<Rightarrow> unit io" where
  "four_digit_brightness bus pin brightness =
     io_bind (write_i2c_block bus (fourDigitBrightness_cmd @ [pin, brightness, unused])) (\<lambda>_.
     time_sleep 50)"

definition four_digit_digit :: "smbus \<Rightarrow> int \<Rightarrow> int \<Rightarrow> int \<Rightarrow> unit io" where
  "four_digit_digit bus pin segment val =
     io_bind (write_i2c_block bus (fourDigitIndividualDigit_cmd @ [pin, segment, val])) (\<lambda>_.
     time_sleep 50)"

definition four_digit_segment :: "smbus \<Rightarrow> int \<Rightarrow> int \<Rightarrow> int \<Rightarrow> unit io" where
  "four_digit_segment bus pin segment leds =
     io_bind (write_i2c_block bus (fourDigitIndividualLeds_cmd @ [pin, segment, leds])) (\<lambda>_.
     time_sleep 50)"

definition four_digit_score :: "smbus \<Rightarrow> int \<Rightarrow> int \<Rightarrow> int \<Rightarrow> unit io" where
  "four_digit_score bus pin left right =
     io_bind (write_i2c_block bus (fourDigitScore_cmd @ [pin, left, right])) (\<lambda>_.
     time_sleep 50)"

text \<open>The sleep is \<^verbatim>\<open>duration + .05\<close> seconds, for a duration in whole seconds.\<close>

definition four_digit_monitor :: "smbus \<Rightarrow> int \<Rightarrow> int \<Rightarrow> int \<Rightarrow> unit io" where
  "four_digit_monitor bus pin analog duration =
     io_bind (write_i2c_block bus (fourDigitAnalogRead_cmd @ [pin, analog, duration])) (\<lambda>_.
     time_sleep (duration * 1000 + 50))"

definition four_digit_on :: "smbus \<Rightarrow> int \<Rightarrow> unit io" where
  "four_digit_on bus pin =
     io_bind (write_i2c_block bus (fourDigitAllOn_cmd @ [pin, unused, unused])) (\<lambda>_.
     time_sleep 50)"

definition four_digit_off :: "smbus \<Rightarrow> int \<Rightarrow> unit io" where
  "four_digit_off bus pin =
     io_bind (write_i2c_block bus (fourDigitAllOff_cmd @ [pin, unused, unused])) (\<lambda>_.
     time_sleep 50)"

definition store_color :: "smbus \<Rightarrow> int \<Rightarrow> int \<Rightarrow> int \<Rightarrow> unit io" where
  "store_color bus red green blue =
     io_bind (write_i2c_block bus (storeColor_cmd @ [red, green, blue])) (\<lambda>_.
     time_sleep 50)"

definition chainable_rgb_led_init :: "smbus \<Rightarrow> int \<Rightarrow> int \<Rightarrow> unit io" where
  "chainable_rgb_led_init bus pin num_leds =
     io_bind (write_i2c_block bus (chainableRgbLedInit_cmd @ [pin, num_leds, unused])) (\<lambda>_.
     time_sleep 50)"

definition chainable_rgb_led_test :: "smbus \<Rightarrow> int \<Rightarrow> int \<Rightarrow> int \<Rightarrow> unit io" where
  "chainable_rgb_led_test bus pin num_leds test_color =
     io_bind (write_i2c_block bus (chainableRgbLedTest_cmd @ [pin, num_leds, test_color])) (\<lambda>_.
     time_sleep 50)"

definition chainable_rgb_led_pattern :: "smbus \<Rightarrow> int \<Rightarrow> int \<Rightarrow> int \<Rightarrow> unit io" where
  "chainable_rgb_led_pattern bus pin pattern which_led =
     io_bind (write_i2c_block bus (chainableRgbLedSetPattern_cmd @ [pin, pattern, which_led])) (\<lambda>_.
     time_sleep 50)"

definition chainable_rgb_led_modulo :: "smbus \<Rightarrow> int \<Rightarrow> int \<Rightarrow> int \<Rightarrow> unit io" where
  "chainable_rgb_led_modulo bus pin offset divisor =
     io_bind (write_i2c_block bus (chainableRgbLedSetModulo_cmd @ [pin, offset, divisor])) (\<lambda>_.
     time_sleep 50)"

definition chainable_rgb_led_set_level :: "smbus \<Rightarrow> int \<Rightarrow> int \<Rightarrow> int \<Rightarrow> unit io" where
  "chainable_rgb_led_set_level bus pin level reverse =
     io_bind (write_i2c_block bus (chainableRgbLedSetLevel_cmd @ [pin, level, reverse])) (\<lambda>_.
     time_sleep 50)"

definition ir_read_signal :: "smbus \<Rightarrow> int list io" where
  "ir_read_signal bus =
     try_except
       (io_bind (write_i2c_block bus (ir_read_cmd @ [unused, unused, unused])) (\<lambda>_.
        io_bind (time_sleep 100) (\<lambda>_.
        io_bind (read_i2c_block bus I2C_ADDRESS) (\<lambda>block.
        let data_back = slice block 0 21 in
        io_bind (getitem data_back 1) (\<lambda>d1.
        if d1 \<noteq> 255 then ret data_back
        else ret (replicate 21 (- 1)))))))
       is_IOError
       (\<lambda>e. raise (GrovePiException (Cause e)))"

definition ir_recv_pin :: "smbus \<Rightarrow> int \<Rightarrow> unit io" where
  "ir_recv_pin bus pin = write_i2c_block bus (ir_recv_pin_cmd @ [pin, unused, unused])"

definition dust_sensor_en :: "smbus \<Rightarrow> unit io" where
  "dust_sensor_en bus =
     io_bind (write_i2c_block bus (dust_sensor_en_cmd @ [unused, unused, unused])) (\<lambda>_.
     time_sleep 200)"

definition dust_sensor_dis :: "smbus \<Rightarrow> unit io" where
  "dust_sensor_dis bus =
     io_bind (write_i2c_block bus (dust_sensor_dis_cmd @ [unused, unused, unused])) (\<lambda>_.
     time_sleep 200)"

definition dust_sensor_read :: "smbus \<Rightarrow> int list io" where
  "dust_sensor_read bus =
     io_bind (write_i2c_block bus (dus_sensor_read_cmd @ [unused, unused, unused])) (\<lambda>_.
     io_bind (time_sleep 200) (\<lambda>_.
     io_bind (read_i2c_block bus I2C_ADDRESS) (\<lambda>block.
     let data_back = slice block 0 4 in
     io_bind (getitem data_back 0) (\<lambda>d0.
     if d0 \<noteq> 255 then
       io_bind (getitem data_back 3) (\<lambda>d3.
       io_bind (getitem data_back 2) (\<lambda>d2.
       io_bind (getitem data_back 1) (\<lambda>d1.
       let lowpulseoccupancy = d3 * 256 * 256 + d2 * 256 + d1 in
       io_bind (getitem data_back 0) (\<lambda>d0'.
       ret [d0', lowpulseoccupancy]))))
     else raise (GrovePiException NoArgs)))))"

definition encoder_en :: "smbus \<Rightarrow> unit io" where
  "encoder_en bus =
     io_bind (write_i2c_block bus (encoder_en_cmd @ [unused, unused, unused])) (\<lambda>_.
     time_sleep 200)"

definition encoder_dis :: "smbus \<Rightarrow> unit io" where
  "encoder_dis bus =
     io_bind (write_i2c_block bus (encoder_dis_cmd @ [unused, unused, unused])) (\<lambda>_.
     time_sleep 200)"

definition encoder_read :: "smbus \<Rightarrow> int list io" where
  "encoder_read bus =
     io_bind (write_i2c_block bus (encoder_read_cmd @ [unused, unused, unused])) (\<lambda>_.
     io_bind (time_sleep 200) (\<lambda>_.
     io_bind (read_i2c_block bus I2C_ADDRESS) (\<lambda>block.
     let data_back = slice block 0 2 in
     io_bind (getitem data_back 0) (\<lambda>d0.
     if d0 \<noteq> 255 then
       io_bind (getitem data_back 0) (\<lambda>d0'.
       io_bind (getitem data_back 1) (\<lambda>d1.
       ret [d0', d1]))
     else raise (GrovePiException NoArgs)))))"

definition flow_disable :: "smbus \<Rightarrow> unit io" where
  "flow_disable bus =
     io_bind (write_i2c_block bus (flow_disable_cmd @ [unused, unused, unused])) (\<lambda>_.
     time_sleep 200)"

definition flow_enable :: "smbus \<Rightarrow> unit io" where
  "flow_enable bus =
     io_bind (write_i2c_block bus (flow_en_cmd @ [unused, unused, unused])) (\<lambda>_.
     time_sleep 200)"

definition flow_read :: "smbus \<Rightarrow> int list io" where
  "flow_read bus =
     io_bind (write_i2c_block bus (flow_read_cmd @ [unused, unused, unused])) (\<lambda>_.
     io_bind (time_sleep 200) (\<lambda>_.
     io_bind (read_i2c_block bus I2C_ADDRESS) (\<lambda>block.
     let data_back = slice block 0 3 in
     io_bind (getitem data_back 0) (\<lambda>d0.
     if d0 \<noteq> 255 then
       io_bind (getitem data_back 0) (\<lambda>d0'.
       io_bind (getitem data_back 2) (\<lambda>d2.
       io_bind (getitem data_back 1) (\<lambda>d1.
       ret [d0', d2 * 256 + d1])))
     else raise (GrovePiException NoArgs)))))"

section \<open>The public interface as a whole\<close>

text \<open>A call of one public function of the module, with its arguments.\<close>

datatype call =
    Digital_read int
  | Digital_write int int
  | Pin_mode int string
  | Analog_read int
  | Analog_write int int
  | Temp int string
  | Ultrasonic_read int
  | Version
  | Acc_xyz
  | Rtc_get_time
  | Dht int int
  | Ledbar_init int int
  | Ledbar_orientation int int
  | Ledbar_set_level int int
  | Ledbar_set_led int int int
  | Ledbar_toggle_led int int
  | Ledbar_set_bits int int
  | Ledbar_get_bits int
  | Four_digit_init int
  | Four_digit_number int int bool
  | Four_digit_brightness int int
  | Four_digit_digit int int int
  | Four_digit_segment int int int
  | Four_digit_score int int int
  | Four_digit_monitor int int int
  | Four_digit_on int
  | Four_digit_off int
  | Store_color int int int
  | Chainable_rgb_led_init int int
  | Chainable_rgb_led_test int int int
  | Chainable_rgb_led_pattern int int int
  | Chainable_rgb_led_modulo int int int
  | Chainable_rgb_led_set_level int int int
  | Ir_read_signal
  | Ir_recv_pin int
  | Dust_sensor_en
  | Dust_sensor_dis
  | Dust_sensor_read
  | Encoder_en
  | Encoder_dis
  | Encoder_read
  | Flow_disable
  | Flow_enable
  | Flow_read

text \<open>The values the public functions return.\<close>

datatype pyval =
    PyNone
  | PyInt int
  | PyFloat pyfloat
  | PyStr string
  | PyInts "int list"
  | PyFloats "pyfloat list"
  | PyTriple int int int

definition returning :: "('a \<Rightarrow> pyval) \<Rightarrow> 'a io \<Rightarrow> pyval io" where
  "returning f m = io_bind m (\<lambda>x. ret (f x))"

fun run :: "smbus \<Rightarrow> call \<Rightarrow> pyval io" where
  "run bus (Digital_read pin) = returning PyInt (digital_read bus pin)"
| "run bus (Digital_write pin v) = returning (\<lambda>_. PyNone) (digital_write bus pin v)"
| "run bus (Pin_mode pin mode) = returning (\<lambda>_. PyNone) (pin_mode bus pin mode)"
| "run bus (Analog_read pin) = returning PyInt (analog_read bus pin)"
| "run bus (Analog_write pin v) = returning (\<lambda>_. PyNone) (analog_write bus pin v)"
| "run bus (Temp pin model) = returning PyFloat (temp bus pin model)"
| "run bus (Ultrasonic_read pin) = returning PyInt (ultrasonic_read bus pin)"
| "run bus Version = returning PyStr (version bus)"
| "run bus Acc_xyz = returning (\<lambda>(x, y, z). PyTriple x y z) (acc_xyz bus)"
| "run bus Rtc_get_time = returning PyInts (rtc_get_time bus)"
| "run bus (Dht pin module_type) = returning PyFloats (dht bus pin module_type)"
| "run bus (Ledbar_init pin orientation) = returning (\<lambda>_. PyNone) (ledbar_init bus pin orientation)"
| "run bus (Ledbar_orientation pin orientation) =
     returning (\<lambda>_. PyNone) (ledbar_orientation bus pin orientation)"
| "run bus (Ledbar_set_level pin level) = returning (\<lambda>_. PyNone) (ledbar_set_level bus pin level)"
| "run bus (Ledbar_set_led pin led state) = returning (\<lambda>_. PyNone) (ledbar_set_led bus pin led state)"
| "run bus (Ledbar_toggle_led pin led) = returning (\<lambda>_. PyNone) (ledbar_toggle_led bus pin led)"
| "run bus (Ledbar_set_bits pin state) = returning (\<lambda>_. PyNone) (ledbar_set_bits bus pin state)"
| "run bus (Ledbar_get_bits pin) = returning PyInt (ledbar_get_bits bus pin)"
| "run bus (Four_digit_init pin) = returning (\<lambda>_. PyNone) (four_digit_init bus pin)"
| "run bus (Four_digit_number pin v leading_zero) =
     returning (\<lambda>_. PyNone) (four_digit_number bus pin v leading_zero)"
| "run bus (Four_digit_brightness pin brightness) =
     returning (\<lambda>_. PyNone) (four_digit_brightness bus pin brightness)"
| "run bus (Four_digit_digit pin segment v) = returning (\<lambda>_. PyNone) (four_digit_digit bus pin segment v)"
| "run bus (Four_digit_segment pin segment leds) =
     returning (\<lambda>_. PyNone) (four_digit_segment bus pin segment leds)"
| "run bus (Four_digit_score pin left right) = returning (\<lambda>_. PyNone) (four_digit_score bus pin left right)"
| "run bus (Four_digit_monitor pin analog duration) =
     returning (\<lambda>_. PyNone) (four_digit_monitor bus pin analog duration)"
| "run bus (Four_digit_on pin) = returning (\<lambda>_. PyNone) (four_digit_on bus pin)"
| "run bus (Four_digit_off pin) = returning (\<lambda>_. PyNone) (four_digit_off bus pin)"
| "run bus (Store_color red green blue) = returning (\<lambda>_. PyNone) (store_color bus red green blue)"
| "run bus (Chainable_rgb_led_init pin num_leds) =
     returning (\<lambda>_. PyNone) (chainable_rgb_led_init bus pin num_leds)"
| "run bus (Chainable_rgb_led_test pin num_leds test_color) =
     returning (\<lambda>_. PyNone) (chainable_rgb_led_test bus pin num_leds test_color)"
| "run bus (Chainable_rgb_led_pattern pin pattern which_led) =
     returning (\<lambda>_. PyNone) (chainable_rgb_led_pattern bus pin pattern which_led)"
| "run bus (Chainable_rgb_led_modulo pin offset divisor) =
     returning (\<lambda>_. PyNone) (chainable_rgb_led_modulo bus pin offset divisor)"
| "run bus (Chainable_rgb_led_set_level pin level reverse) =
     returning (\<lambda>_. PyNone) (chainable_rgb_led_set_level bus pin level reverse)"
| "run bus Ir_read_signal = returning PyInts (ir_read_signal bus)"
| "run bus (Ir_recv_pin pin) = returning (\<lambda>_. PyNone) (ir_recv_pin bus pin)"
| "run bus Dust_sensor_en = returning (\<lambda>_. PyNone) (dust_sensor_en bus)"
| "run bus Dust_sensor_dis = returning (\<lambda>_. PyNone) (dust_sensor_dis bus)"
| "run bus Dust_sensor_read = returning PyInts (dust_sensor_read bus)"
| "run bus Encoder_en = returning (\<lambda>_. PyNone) (encoder_en bus)"
| "run bus Encoder_dis = returning (\<lambda>_. PyNone) (encoder_dis bus)"
| "run bus Encoder_read = returning PyInts (encoder_read bus)"
| "run bus Flow_disable = returning (\<lambda>_. PyNone) (flow_disable bus)"
| "run bus Flow_enable = returning (\<lambda>_. PyNone) (flow_enable bus)"
| "run bus Flow_read = returning PyInts (flow_read bus)"

text \<open>The events a call adds to the history, and the blocks it hands to the bus for writing.\<close>

definition new_events :: "smbus \<Rightarrow> call \<Rightarrow> event list \<Rightarrow> event list" where
  "new_events bus c tr = drop (length tr) (snd (run bus c tr))"

fun written :: "event list \<Rightarrow> int list list" where
  "written [] = []"
| "written (BusWrite a r block # es) = block # written es"
| "written (e # es) = written es"

text \<open>
  The last call on the bus recorded in a history failed with diagnostic \<open>d\<close>.
\<close>

definition last_call_failed :: "smbus \<Rightarrow> event list \<Rightarrow> string \<Rightarrow> bool" where
  "last_call_failed bus tr d =
     (case rev tr of
        [] \<Rightarrow> False
      | BusWrite a r block # es \<Rightarrow> write_reply bus tr = Some d
      | BusReadByte a # es \<Rightarrow> byte_reply bus tr = Inl d
      | BusReadBlock a r # es \<Rightarrow> block_reply bus tr = Inl d
      | Sleep ms # es \<Rightarrow> False)"

text \<open>
  The bus calls among the events \<open>es\<close> that follow a history \<open>h\<close> and that the device
  answers with a failure, by their diagnostics, in order.
\<close>

fun failure_of :: "smbus \<Rightarrow> event list \<Rightarrow> event \<Rightarrow> string option" where
  "failure_of bus h (BusWrite a r block) = write_reply bus h"
| "failure_of bus h (BusReadByte a) = (case byte_reply bus h of Inl d \<Rightarrow> Some d | Inr n \<Rightarrow> None)"
| "failure_of bus h (BusReadBlock a r) =
     (case block_reply bus h of Inl d \<Rightarrow> Some d | Inr number \<Rightarrow> None)"
| "failure_of bus h (Sleep ms) = None"

fun failures :: "smbus \<Rightarrow> event list \<Rightarrow> event list \<Rightarrow> string list" where
  "failures bus h [] = []"
| "failures bus h (e # es) =
     (case failure_of bus (h @ [e]) e of
        Some d \<Rightarrow> d # failures bus (h @ [e]) es
      | None \<Rightarrow> failures bus (h @ [e]) es)"


section \<open>The protocol in the words of the specification\<close>

text \<open>
  The command catalogue: the opcode of each operation and the parameters it puts on the
  wire, in order. \<open>temp\<close> is built on the analog read; \<open>four_digit_number\<close> has one opcode
  for each value of its flag; the two operations that send a 16-bit value send its low
  byte, then its high byte.
\<close>

fun catalog_opcode :: "call \<Rightarrow> int" where
  "catalog_opcode (Digital_read pin) = 1"
| "catalog_opcode (Digital_write pin v) = 2"
| "catalog_opcode (Pin_mode pin mode) = 5"
| "catalog_opcode (Analog_read pin) = 3"
| "catalog_opcode (Analog_write pin v) = 4"
| "catalog_opcode (Temp pin model) = 3"
| "catalog_opcode (Ultrasonic_read pin) = 7"
| "catalog_opcode Version = 8"
| "catalog_opcode Acc_xyz = 20"
| "catalog_opcode Rtc_get_time = 30"
| "catalog_opcode (Dht pin module_type) = 40"
| "catalog_opcode (Ledbar_init pin orientation) = 50"
| "catalog_opcode (Ledbar_orientation pin orientation) = 51"
| "catalog_opcode (Ledbar_set_level pin level) = 52"
| "catalog_opcode (Ledbar_set_led pin led state) = 53"
| "catalog_opcode (Ledbar_toggle_led pin led) = 54"
| "catalog_opcode (Ledbar_set_bits pin state) = 55"
| "catalog_opcode (Ledbar_get_bits pin) = 56"
| "catalog_opcode (Four_digit_init pin) = 70"
| "catalog_opcode (Four_digit_number pin v leading_zero) = (if leading_zero then 72 else 73)"
| "catalog_opcode (Four_digit_brightness pin brightness) = 71"
| "catalog_opcode (Four_digit_digit pin segment v) = 74"
| "catalog_opcode (Four_digit_segment pin segment leds) = 75"
| "catalog_opcode (Four_digit_score pin left right) = 76"
| "catalog_opcode (Four_digit_monitor pin analog duration) = 77"
| "catalog_opcode (Four_digit_on pin) = 78"
| "catalog_opcode (Four_digit_off pin) = 79"
| "catalog_opcode (Store_color red green blue) = 90"
| "catalog_opcode (Chainable_rgb_led_init pin num_leds) = 91"
| "catalog_opcode (Chainable_rgb_led_test pin num_leds test_color) = 92"
| "catalog_opcode (Chainable_rgb_led_pattern pin pattern which_led) = 93"
| "catalog_opcode (Chainable_rgb_led_modulo pin offset divisor) = 94"
| "catalog_opcode (Chainable_rgb_led_set_level pin level reverse) = 95"
| "catalog_opcode Ir_read_signal = 21"
| "catalog_opcode (Ir_recv_pin pin) = 22"
| "catalog_opcode Dust_sensor_en = 14"
| "catalog_opcode Dust_sensor_dis = 15"
| "catalog_opcode Dust_sensor_read = 10"
| "catalog_opcode Encoder_en = 16"
| "catalog_opcode Encoder_dis = 17"
| "catalog_opcode Encoder_read = 11"
| "catalog_opcode Flow_disable = 13"
| "catalog_opcode Flow_enable = 18"
| "catalog_opcode Flow_read = 12"

fun wire_params :: "call \<Rightarrow> int list" where
  "wire_params (Digital_read pin) = [pin]"
| "wire_params (Digital_write pin v) = [pin, v]"
| "wire_params (Pin_mode pin mode) = [pin, if mode = ''OUTPUT'' then 1 else 0]"
| "wire_params (Analog_read pin) = [pin]"
| "wire_params (Analog_write pin v) = [pin, v]"
| "wire_params (Temp pin model) = [pin]"
| "wire_params (Ultrasonic_read pin) = [pin]"
| "wire_params Version = []"
| "wire_params Acc_xyz = []"
| "wire_params Rtc_get_time = []"
| "wire_params (Dht pin module_type) = [pin, module_type]"
| "wire_params (Ledbar_init pin orientation) = [pin, orientation]"
| "wire_params (Ledbar_orientation pin orientation) = [pin, orientation]"
| "wire_params (Ledbar_set_level pin level) = [pin, level]"
| "wire_params (Ledbar_set_led pin led state) = [pin, led, state]"
| "wire_params (Ledbar_toggle_led pin led) = [pin, led]"
| "wire_params (Ledbar_set_bits pin state) = [pin, state AND 255, drop_bit 8 state]"
| "wire_params (Ledbar_get_bits pin) = [pin]"
| "wire_params (Four_digit_init pin) = [pin]"
| "wire_params (Four_digit_number pin v leading_zero) = [pin, v AND 255, drop_bit 8 v]"
| "wire_params (Four_digit_brightness pin brightness) = [pin, brightness]"
| "wire_params (Four_digit_digit pin segment v) = [pin, segment, v]"
| "wire_params (Four_digit_segment pin segment leds) = [pin, segment, leds]"
| "wire_params (Four_digit_score pin left right) = [pin, left, right]"
| "wire_params (Four_digit_monitor pin analog duration) = [pin, analog, duration]"
| "wire_params (Four_digit_on pin) = [pin]"
| "wire_params (Four_digit_off pin) = [pin]"
| "wire_params (Store_color red green blue) = [red, green, blue]"
| "wire_params (Chainable_rgb_led_init pin num_leds) = [pin, num_leds]"
| "wire_params (Chainable_rgb_led_test pin num_leds test_color) = [pin, num_leds, test_color]"
| "wire_params (Chainable_rgb_led_pattern pin pattern which_led) = [pin, pattern, which_led]"
| "wire_params (Chainable_rgb_led_modulo pin offset divisor) = [pin, offset, divisor]"
| "wire_params (Chainable_rgb_led_set_level pin level reverse) = [pin, level, reverse]"
| "wire_params Ir_read_signal = []"
| "wire_params (Ir_recv_pin pin) = [pin]"
| "wire_params Dust_sensor_en = []"
| "wire_params Dust_sensor_dis = []"
| "wire_params Dust_sensor_read = []"
| "wire_params Encoder_en = []"
| "wire_params Encoder_dis = []"
| "wire_params Encoder_read = []"
| "wire_params Flow_disable = []"
| "wire_params Flow_enable = []"
| "wire_params Flow_read = []"

text \<open>
  The frame of the specification: the opcode, then the parameters, then zeros up to
  four bytes.
\<close>

definition command_frame :: "int \<Rightarrow> int list \<Rightarrow> int list" where
  "command_frame opc ps = opc # ps @ replicate (3 - length ps) 0"

text \<open>
  The encoding as the specification words it: the same frame with every parameter
  reduced to its low 8 bits.
\<close>

definition truncating_frame :: "int \<Rightarrow> int list \<Rightarrow> int list" where
  "truncating_frame opc ps = opc # map (\<lambda>p. p mod 256) (ps @ replicate (3 - length ps) 0)"

section \<open>Reading depth\<close>


section \<open>Properties\<close>

lemmas cmd_defs =
  I2C_ADDRESS_def unused_def
  dRead_cmd_def dWrite_cmd_def aRead_cmd_def aWrite_cmd_def pMode_cmd_def uRead_cmd_def
  version_cmd_def acc_xyz_cmd_def rtc_getTime_cmd_def dht_temp_cmd_def
  ledbar_init_cmd_def ledbar_orient_cmd_def ledbar_level_cmd_def ledbar_set_one_cmd_def
  ledbar_toggle_one_cmd_def ledbar_set_cmd_def ledbar_get_cmd_def
  fourDigitInit_cmd_def fourDigitBrightness_cmd_def fourDigitValue_cmd_def
  fourDigitValueZeros_cmd_def fourDigitIndividualDigit_cmd_def fourDigitIndividualLeds_cmd_def
  fourDigitScore_cmd_def fourDigitAnalogRead_cmd_def fourDigitAllOn_cmd_def
  fourDigitAllOff_cmd_def
  storeColor_cmd_def chainableRgbLedInit_cmd_def chainableRgbLedTest_cmd_def
  chainableRgbLedSetPattern_cmd_def chainableRgbLedSetModulo_cmd_def
  chainableRgbLedSetLevel_cmd_def
  ir_read_cmd_def ir_recv_pin_cmd_def
  dus_sensor_read_cmd_def dust_sensor_en_cmd_def dust_sensor_dis_cmd_def
  encoder_read_cmd_def encoder_en_cmd_def encoder_dis_cmd_def
  flow_read_cmd_def flow_disable_cmd_def flow_en_cmd_def

lemmas io_defs = Let_def ret_def raise_def io_bind_def time_sleep_def sleep_max_ns_def
  getitem_def slice_def
  write_i2c_block_def read_i2c_byte_def read_i2c_block_def

lemmas op_defs =
  digital_read_def digital_write_def pin_mode_def analog_read_def analog_write_def temp_def
  ultrasonic_read_def version_def acc_xyz_def rtc_get_time_def dht_def
  ledbar_init_def ledbar_orientation_def ledbar_set_level_def ledbar_set_led_def
  ledbar_toggle_led_def ledbar_set_bits_def ledbar_get_bits_def
  four_digit_init_def four_digit_number_def four_digit_brightness_def four_digit_digit_def
  four_digit_segment_def four_digit_score_def four_digit_monitor_def four_digit_on_def
  four_digit_off_def store_color_def chainable_rgb_led_init_def chainable_rgb_led_test_def
  chainable_rgb_led_pattern_def chainable_rgb_led_modulo_def chainable_rgb_led_set_level_def
  ir_read_signal_def ir_recv_pin_def dust_sensor_en_def dust_sensor_dis_def dust_sensor_read_def
  encoder_en_def encoder_dis_def encoder_read_def flow_disable_def flow_enable_def flow_read_def

subsection \<open>Bytes of a 16-bit value\<close>

lemma mask8: "(255::int) = mask 8"
  by (simp add: mask_eq_exp_minus_1)

lemma split_join: "(v AND 255) XOR push_bit 8 (drop_bit 8 v) = (v::int)"
  unfolding mask8 by (rule bit_eqI) (auto simp: bit_simps)

lemma low_byte: "(v::int) AND 255 = v mod 256"
  unfolding mask8 by (simp add: take_bit_eq_mod flip: take_bit_eq_mask)

lemma high_byte: "drop_bit 8 (v::int) = v div 256"
  by (simp add: drop_bit_eq_div)

subsection \<open>The frames every operation writes\<close>

lemma replicate_small:
  "replicate 1 x = [x]" "replicate 2 x = [x, x]" "replicate 3 x = [x, x, x]"
  by (simp_all add: numeral_2_eq_2 numeral_3_eq_3)

lemma frames_general:
  "written (new_events bus c tr) = [command_frame (catalog_opcode c) (wire_params c)]
   \<or> (\<exists>pin mode. c = Pin_mode pin mode \<and> mode \<noteq> ''OUTPUT'' \<and> mode \<noteq> ''INPUT''
        \<and> new_events bus c tr = [])"
  by (cases c)
     (simp_all add: new_events_def returning_def command_frame_def op_defs try_except_def
        float_div_def math_log_def bytearray_def unpack_f_def list_eq_int_def
        replicate_small io_defs cmd_defs split: option.split sum.split)

lemma wire_params_length: "length (wire_params c) \<le> 3"
  by (cases c) simp_all

lemma mod_256_fixed: "(p mod 256 = p) = (0 \<le> p \<and> p < (256::int))"
  by (metis mod_pos_pos_trivial pos_mod_bound pos_mod_sign zero_less_numeral)

lemma map_mod_256_fixed:
  "(map (\<lambda>p. p mod 256) ps = ps) = list_all (\<lambda>p. 0 \<le> p \<and> p < (256::int)) ps"
  by (induction ps) (simp_all add: mod_256_fixed)

lemma truncating_frame_eq:
  "(command_frame opc ps = truncating_frame opc ps) = list_all (\<lambda>p. 0 \<le> p \<and> p < 256) ps"
proof -
  have "(ps = map (\<lambda>p. p mod 256) ps) = list_all (\<lambda>p. 0 \<le> p \<and> p < 256) ps"
    using map_mod_256_fixed [of ps] by (simp add: eq_commute)
  then show ?thesis
    by (simp add: command_frame_def truncating_frame_def)
qed

text \<open>
  C1 (as amended). In \<open>acc_xyz\<close>, when the frame \<open>[20, 0, 0, 0]\<close> is acknowledged, the
  discarded byte is read and the block read delivers a block of at least four bytes whose
  bytes 1, 2, 3 are \<open>x\<close>, \<open>y\<close>, \<open>z\<close> (each in 0..255), every axis byte \<open>b\<close> decodes to \<open>b\<close>
  itself if \<open>b \<le> 32\<close> and to \<open>224 - b\<close>, the negation of \<open>b - 224\<close>, if \<open>b > 32\<close>.
\<close>

theorem acc_xyz_decode:
  assumes "write_reply bus (tr @ [BusWrite 4 1 [20, 0, 0, 0]]) = None"
    and "byte_reply bus (tr @ [BusWrite 4 1 [20, 0, 0, 0], Sleep 100, BusReadByte 4]) = Inr v"
    and "block_reply bus (tr @ [BusWrite 4 1 [20, 0, 0, 0], Sleep 100, BusReadByte 4,
           BusReadBlock 4 1]) = Inr (h # x # y # z # rest)"
    and "0 \<le> x \<and> x \<le> 255 \<and> 0 \<le> y \<and> y \<le> 255 \<and> 0 \<le> z \<and> z \<le> 255"
  shows "fst (acc_xyz bus tr) =
     Inr (if x \<le> 32 then x else 224 - x, if y \<le> 32 then y else 224 - y,
          if z \<le> 32 then z else 224 - z)"
  using assms by (simp add: acc_xyz_def io_defs cmd_defs)

theorem acc_xyz_decode_witness:
  "fst (acc_xyz (steady_bus None (Inr 0) (Inr [0, 255, 224, 7, 0])) []) = Inr (- 31, 0, 7)"
  using acc_xyz_decode [of "steady_bus None (Inr 0) (Inr [0, 255, 224, 7, 0])" "[]" 0 0 255 224 7 "[0]"]
  by (simp add: steady_bus_def)

text \<open>
  C1 as stated fails: byte 255 decodes to \<open>-31\<close>, not to \<open>255 - 224 = 31\<close>, and byte 33
  decodes to \<open>191\<close>, not to \<open>33 - 224 = -191\<close>.
\<close>

theorem acc_xyz_byte_255_counterexample:
  "fst (acc_xyz (steady_bus None (Inr 0) (Inr [0, 255, 224, 33, 0])) []) = Inr (- 31, 0, 191)
   \<and> fst (acc_xyz (steady_bus None (Inr 0) (Inr [0, 255, 224, 33, 0])) [])
       \<noteq> Inr (255 - 224, 224 - 224, 33 - 224)"
  by (simp add: acc_xyz_def io_defs cmd_defs steady_bus_def)

text \<open>
  C8. For every operation, every device and every history, the block handed to the
  transport write has exactly four elements: the opcode of the operation first, then its
  parameters in order, then zeros. Every call writes exactly one such frame, except
  \<open>pin_mode\<close> with a mode that is neither \<open>OUTPUT\<close> nor \<open>INPUT\<close>, which does nothing. In
  particular a digital read of pin 2 writes \<open>[1, 2, 0, 0]\<close>, sleeps 0.1 s and returns the
  single byte it reads back.
\<close>

theorem command_frame_shape:
  "length (wire_params c) \<le> 3
   \<and> length (command_frame (catalog_opcode c) (wire_params c)) = 4
   \<and> command_frame (catalog_opcode c) (wire_params c) ! 0 = catalog_opcode c
   \<and> (written (new_events bus c tr) = [command_frame (catalog_opcode c) (wire_params c)]
       \<or> (\<exists>pin mode. c = Pin_mode pin mode \<and> mode \<noteq> ''OUTPUT'' \<and> mode \<noteq> ''INPUT''
            \<and> new_events bus c tr = []))
   \<and> (write_reply bus (tr @ [BusWrite 4 1 [1, 2, 0, 0]]) = None
       \<and> byte_reply bus (tr @ [BusWrite 4 1 [1, 2, 0, 0], Sleep 100, BusReadByte 4]) = Inr n
      \<longrightarrow> digital_read bus 2 tr
            = (Inr n, tr @ [BusWrite 4 1 [1, 2, 0, 0], Sleep 100, BusReadByte 4]))"
proof -
  have len: "length (wire_params c) \<le> 3"
    by (rule wire_params_length)
  have four: "length (command_frame (catalog_opcode c) (wire_params c)) = 4"
    using len by (simp add: command_frame_def)
  have head: "command_frame (catalog_opcode c) (wire_params c) ! 0 = catalog_opcode c"
    by (simp add: command_frame_def)
  have dread: "write_reply bus (tr @ [BusWrite 4 1 [1, 2, 0, 0]]) = None
       \<and> byte_reply bus (tr @ [BusWrite 4 1 [1, 2, 0, 0], Sleep 100, BusReadByte 4]) = Inr n
      \<longrightarrow> digital_read bus 2 tr
            = (Inr n, tr @ [BusWrite 4 1 [1, 2, 0, 0], Sleep 100, BusReadByte 4])"
    by (simp add: digital_read_def io_defs cmd_defs)
  from len four head frames_general [of bus c tr] dread show ?thesis
    by (intro conjI)
qed

theorem command_frame_shape_witness:
  "written (new_events (steady_bus None (Inr 1) (Inr [])) (Digital_read 2) []) = [[1, 2, 0, 0]]
   \<and> digital_read (steady_bus None (Inr 1) (Inr [])) 2 []
       = (Inr 1, [BusWrite 4 1 [1, 2, 0, 0], Sleep 100, BusReadByte 4])"
  using command_frame_shape [of "Digital_read 2" "steady_bus None (Inr 1) (Inr [])" "[]" 1]
  by (simp add: steady_bus_def command_frame_def replicate_small)

text \<open>
  C5 (as amended). The frame holds every parameter as the caller supplied it, with no
  reduction to its low 8 bits: \<open>digital_write pin v\<close> writes \<open>[2, pin, v, 0]\<close> for every
  integer \<open>v\<close>. Of a 16-bit value only the low byte is reduced: \<open>ledbar_set_bits pin state\<close>
  writes \<open>[55, pin, state mod 256, state div 256]\<close>. For every operation, the frame written
  is the truncated frame of the specification exactly when all parameters on the wire
  already lie in 0..255.
\<close>

theorem parameters_not_truncated:
  "written (new_events bus (Digital_write pin v) tr) = [[2, pin, v, 0]]
   \<and> written (new_events bus (Ledbar_set_bits pin state) tr)
       = [[55, pin, state mod 256, state div 256]]
   \<and> (\<forall>blk. blk \<in> set (written (new_events bus c tr)) \<longrightarrow>
        (blk = truncating_frame (catalog_opcode c) (wire_params c)
         \<longleftrightarrow> list_all (\<lambda>p. 0 \<le> p \<and> p < 256) (wire_params c)))"
proof -
  have dw: "written (new_events bus (Digital_write pin v) tr) = [[2, pin, v, 0]]"
    using frames_general [of bus "Digital_write pin v" tr]
    by (simp add: command_frame_def replicate_small)
  have sb: "written (new_events bus (Ledbar_set_bits pin state) tr)
       = [[55, pin, state mod 256, state div 256]]"
    using frames_general [of bus "Ledbar_set_bits pin state" tr]
    by (simp add: command_frame_def low_byte high_byte)
  have gen: "blk = truncating_frame (catalog_opcode c) (wire_params c)
         \<longleftrightarrow> list_all (\<lambda>p. 0 \<le> p \<and> p < 256) (wire_params c)"
    if "blk \<in> set (written (new_events bus c tr))" for blk
  proof -
    have "blk = command_frame (catalog_opcode c) (wire_params c)"
      using that frames_general [of bus c tr] by auto
    then show ?thesis
      using truncating_frame_eq [of "catalog_opcode c" "wire_params c"] by simp
  qed
  from dw sb gen show ?thesis by blast
qed

theorem parameters_not_truncated_witness:
  "[2, 1, 300, 0] \<in> set (written (new_events (steady_bus None (Inr 0) (Inr [])) (Digital_write 1 300) []))
   \<and> [2, 1, 300, 0] \<noteq> truncating_frame 2 [1, 300]
   \<and> \<not> list_all (\<lambda>p. 0 \<le> p \<and> p < 256) [1, 300 :: int]"
  using parameters_not_truncated
    [of "steady_bus None (Inr 0) (Inr [])" 1 300 "[]" 0 "Digital_write 1 300"]
  by (simp add: truncating_frame_def replicate_small)

text \<open>
  C5 as stated fails: \<open>digital_write 1 300\<close> hands \<open>[2, 1, 300, 0]\<close> to the bus, where the
  truncating encoding gives \<open>[2, 1, 44, 0]\<close>.
\<close>

theorem digital_write_300_counterexample:
  "written (new_events (steady_bus None (Inr 0) (Inr [])) (Digital_write 1 300) [])
     = [[2, 1, 300, 0]]
   \<and> truncating_frame 2 [1, 300] = [2, 1, 44, 0]
   \<and> written (new_events (steady_bus None (Inr 0) (Inr [])) (Digital_write 1 300) [])
     \<noteq> [truncating_frame 2 [1, 300]]"
  by (simp add: new_events_def returning_def digital_write_def truncating_frame_def
      replicate_small io_defs cmd_defs steady_bus_def)

text \<open>
  C9. For every pin and every mode other than the strings \<open>OUTPUT\<close> and \<open>INPUT\<close>,
  \<open>pin_mode\<close> returns normally and leaves the history as it was: no bus call at all.
\<close>

theorem pin_mode_other_mode_is_noop:
  "mode \<noteq> ''OUTPUT'' \<Longrightarrow> mode \<noteq> ''INPUT'' \<Longrightarrow> pin_mode bus pin mode tr = (Inr (), tr)"
  by (simp add: pin_mode_def ret_def)

theorem pin_mode_other_mode_is_noop_witness:
  "''output'' \<noteq> ''OUTPUT'' \<and> ''output'' \<noteq> ''INPUT''
   \<and> pin_mode (steady_bus (Some ''EIO'') (Inr 0) (Inr [])) 3 ''output'' [Sleep 50]
       = (Inr (), [Sleep 50])"
  using pin_mode_other_mode_is_noop [of "''output''" "steady_bus (Some ''EIO'') (Inr 0) (Inr [])" 3 "[Sleep 50]"]
  by simp

text \<open>
  C7. For every \<open>v\<close> in 0..65535, \<open>ledbar_set_bits\<close> writes the frame \<open>[55, pin, low, high]\<close>
  with \<open>low = v & 255\<close> and \<open>high = v >> 8\<close>, both bytes; and whenever the block that
  \<open>ledbar_get_bits\<close> reads back carries those two bytes at indices 1 and 2, the decoding
  \<open>low ^ (high << 8)\<close> returns exactly \<open>v\<close>. In particular the block \<open>[_, 0x0F, 0x00, _, _]\<close>
  read after the frame \<open>[56, 3, 0, 0]\<close> decodes to 15.
\<close>

theorem ledbar_bits_roundtrip:
  assumes "0 \<le> v" and "v \<le> 65535"
  shows "0 \<le> v AND 255 \<and> v AND 255 \<le> 255 \<and> 0 \<le> drop_bit 8 v \<and> drop_bit 8 v \<le> 255
    \<and> written (drop (length tr) (snd (ledbar_set_bits bus pin v tr)))
        = [[55, pin, v AND 255, drop_bit 8 v]]
    \<and> (write_reply bus' (tr' @ [BusWrite 4 1 [56, pin, 0, 0]]) = None
        \<and> byte_reply bus' (tr' @ [BusWrite 4 1 [56, pin, 0, 0], Sleep 200, BusReadByte 4]) = Inr d
        \<and> block_reply bus' (tr' @ [BusWrite 4 1 [56, pin, 0, 0], Sleep 200, BusReadByte 4,
              BusReadBlock 4 1]) = Inr (h # (v AND 255) # drop_bit 8 v # rest)
       \<longrightarrow> fst (ledbar_get_bits bus' pin tr') = Inr v)
    \<and> (write_reply bus' (tr' @ [BusWrite 4 1 [56, 3, 0, 0]]) = None
        \<and> byte_reply bus' (tr' @ [BusWrite 4 1 [56, 3, 0, 0], Sleep 200, BusReadByte 4]) = Inr d
        \<and> block_reply bus' (tr' @ [BusWrite 4 1 [56, 3, 0, 0], Sleep 200, BusReadByte 4,
              BusReadBlock 4 1]) = Inr [h, 15, 0, x, y]
       \<longrightarrow> fst (ledbar_get_bits bus' 3 tr') = Inr 15)"
proof -
  have lo: "0 \<le> v AND 255 \<and> v AND 255 \<le> 255"
    by (simp add: low_byte)
  have hi: "0 \<le> drop_bit 8 v \<and> drop_bit 8 v \<le> 255"
    using assms unfolding high_byte by presburger
  have wr: "written (drop (length tr) (snd (ledbar_set_bits bus pin v tr)))
        = [[55, pin, v AND 255, drop_bit 8 v]]"
    by (simp add: ledbar_set_bits_def io_defs cmd_defs split: option.split)
  have rd: "write_reply bus' (tr' @ [BusWrite 4 1 [56, pin, 0, 0]]) = None
        \<and> byte_reply bus' (tr' @ [BusWrite 4 1 [56, pin, 0, 0], Sleep 200, BusReadByte 4]) = Inr d
        \<and> block_reply bus' (tr' @ [BusWrite 4 1 [56, pin, 0, 0], Sleep 200, BusReadByte 4,
              BusReadBlock 4 1]) = Inr (h # (v AND 255) # drop_bit 8 v # rest)
       \<longrightarrow> fst (ledbar_get_bits bus' pin tr') = Inr v"
    by (simp add: ledbar_get_bits_def io_defs cmd_defs split_join)
  have ex: "write_reply bus' (tr' @ [BusWrite 4 1 [56, 3, 0, 0]]) = None
        \<and> byte_reply bus' (tr' @ [BusWrite 4 1 [56, 3, 0, 0], Sleep 200, BusReadByte 4]) = Inr d
        \<and> block_reply bus' (tr' @ [BusWrite 4 1 [56, 3, 0, 0], Sleep 200, BusReadByte 4,
              BusReadBlock 4 1]) = Inr [h, 15, 0, x, y]
       \<longrightarrow> fst (ledbar_get_bits bus' 3 tr') = Inr 15"
    by (simp add: ledbar_get_bits_def io_defs cmd_defs)
  from lo hi wr rd ex show ?thesis
    by (intro conjI) (erule conjunct1 conjunct2)+
qed

theorem ledbar_bits_roundtrip_witness:
  "(0::int) \<le> 1023 \<and> (1023::int) \<le> 65535
   \<and> written (drop (length []) (snd (ledbar_set_bits (steady_bus None (Inr 0) (Inr [])) 3 1023 [])))
       = [[55, 3, 255, 3]]
   \<and> fst (ledbar_get_bits (steady_bus None (Inr 0) (Inr [0, 255, 3, 0, 0])) 3 []) = Inr 1023
   \<and> fst (ledbar_get_bits (steady_bus None (Inr 0) (Inr [0, 15, 0, 0, 0])) 3 []) = Inr 15"
proof -
  have a: "(0::int) \<le> 1023" and b: "(1023::int) \<le> 65535"
    by simp_all
  have lo: "(1023::int) AND 255 = 255" and hi: "drop_bit 8 (1023::int) = 3"
    by (simp_all add: low_byte high_byte)
  show ?thesis
    using ledbar_bits_roundtrip [OF a b, of "[]" "steady_bus None (Inr 0) (Inr [])" 3
        "steady_bus None (Inr 0) (Inr [0, 255, 3, 0, 0])" "[]" 0 0 "[0, 0]"]
      ledbar_bits_roundtrip [OF a b, of "[]" "steady_bus None (Inr 0) (Inr [])" 3
        "steady_bus None (Inr 0) (Inr [0, 15, 0, 0, 0])" "[]" 0 0 "[]" 0 0]
    by (simp add: lo hi steady_bus_def)
qed

text \<open>
  C6. For the dust, encoder and flow sensor reads, when the frame is acknowledged and the
  block read delivers a block at least as long as the slice the operation takes (4, 2 and
  3 bytes), a header byte (index 0) equal to 255 yields the exception raised without
  argument, the module's no-data condition, whatever the other bytes are; any other header
  byte yields the parsed value: the header and the little-endian composite of the bytes
  that follow it.
\<close>

theorem sentinel_header:
  "(write_reply bus (tr @ [BusWrite 4 1 [10, 0, 0, 0]]) = None
      \<and> block_reply bus (tr @ [BusWrite 4 1 [10, 0, 0, 0], Sleep 200, BusReadBlock 4 1]) = Inr blk
      \<and> 4 \<le> length blk
    \<longrightarrow> fst (dust_sensor_read bus tr) =
          (if blk ! 0 = 255 then Inl (GrovePiException NoArgs)
           else Inr [blk ! 0, blk ! 3 * 256 * 256 + blk ! 2 * 256 + blk ! 1]))
   \<and> (write_reply bus (tr @ [BusWrite 4 1 [11, 0, 0, 0]]) = None
      \<and> block_reply bus (tr @ [BusWrite 4 1 [11, 0, 0, 0], Sleep 200, BusReadBlock 4 1]) = Inr blk
      \<and> 2 \<le> length blk
    \<longrightarrow> fst (encoder_read bus tr) =
          (if blk ! 0 = 255 then Inl (GrovePiException NoArgs)
           else Inr [blk ! 0, blk ! 1]))
   \<and> (write_reply bus (tr @ [BusWrite 4 1 [12, 0, 0, 0]]) = None
      \<and> block_reply bus (tr @ [BusWrite 4 1 [12, 0, 0, 0], Sleep 200, BusReadBlock 4 1]) = Inr blk
      \<and> 3 \<le> length blk
    \<longrightarrow> fst (flow_read bus tr) =
          (if blk ! 0 = 255 then Inl (GrovePiException NoArgs)
           else Inr [blk ! 0, blk ! 2 * 256 + blk ! 1]))"
  by (simp add: dust_sensor_read_def encoder_read_def flow_read_def io_defs cmd_defs)

theorem sentinel_header_witness:
  "fst (dust_sensor_read (steady_bus None (Inr 0) (Inr [255, 1, 2, 3, 4])) [])
     = Inl (GrovePiException NoArgs)
   \<and> fst (encoder_read (steady_bus None (Inr 0) (Inr [255, 1, 2, 3, 4])) [])
     = Inl (GrovePiException NoArgs)
   \<and> fst (flow_read (steady_bus None (Inr 0) (Inr [255, 1, 2, 3, 4])) [])
     = Inl (GrovePiException NoArgs)
   \<and> fst (dust_sensor_read (steady_bus None (Inr 0) (Inr [7, 1, 2, 3, 4])) [])
     = Inr [7, 197121]
   \<and> fst (encoder_read (steady_bus None (Inr 0) (Inr [7, 1, 2, 3, 4])) []) = Inr [7, 1]
   \<and> fst (flow_read (steady_bus None (Inr 0) (Inr [7, 1, 2, 3, 4])) []) = Inr [7, 513]"
  using sentinel_header [of "steady_bus None (Inr 0) (Inr [255, 1, 2, 3, 4])" "[]" "[255, 1, 2, 3, 4]"]
    sentinel_header [of "steady_bus None (Inr 0) (Inr [7, 1, 2, 3, 4])" "[]" "[7, 1, 2, 3, 4]"]
  by (simp add: steady_bus_def)

subsection \<open>The thermistor conversion\<close>

lemma ln_1024: "ln (1024::real) \<le> 10"
proof -
  have "ln (1024::real) = ln (2 ^ 10)" by simp
  also have "\<dots> = 10 * ln (2::real)" by (subst ln_realpow) auto
  also have "\<dots> \<le> 10" using ln_2_less_1 by simp
  finally show ?thesis .
qed

lemma ratio_lower:
  assumes "0 < a" "a < 1023"
  shows "1 / 1024 \<le> real_of_int (1023 - a) / real_of_int a"
proof -
  have "real_of_int a \<le> 1024 * real_of_int (1023 - a)" using assms by simp
  then show ?thesis using assms by (simp add: field_simps)
qed

lemma ln_ratio_lower:
  assumes "0 < a" "a < 1023"
  shows "- 10 \<le> ln (real_of_int (1023 - a) / real_of_int a)"
proof -
  have "ln (1 / 1024 :: real) \<le> ln (real_of_int (1023 - a) / real_of_int a)"
    using ratio_lower [OF assms] by (subst ln_le_cancel_iff) (use assms in auto)
  moreover have "ln (1 / 1024 :: real) = - ln 1024"
    by (simp add: ln_div)
  ultimately show ?thesis using ln_1024 by linarith
qed

lemma denominator_positive:
  assumes "0 < a" "a < 1023" "b = 4250 \<or> b = (3975::real)"
  shows "0 < ln (real_of_int (1023 - a) / real_of_int a) / b + 1 / 298.15"
proof -
  have b: "0 < b" "b \<ge> 3975" using assms(3) by auto
  have "- 10 / b \<le> ln (real_of_int (1023 - a) / real_of_int a) / b"
    using divide_right_mono [OF ln_ratio_lower [OF assms(1,2)], of b] b by simp
  moreover have "- 10 / b \<ge> - 10 / 3975" using b by (simp add: field_simps)
  ultimately show ?thesis by simp
qed

text \<open>
  C10. In \<open>temp\<close>, the B value is 4250 exactly when the model argument is the string
  \<open>1.1\<close> or \<open>1.2\<close>; every other model string, recognised or not, gives 3975. The value
  chosen is the one the conversion uses: when the analog read returns \<open>a\<close> with
  \<open>0 < a < 1023\<close>, \<open>temp\<close> returns \<open>1 / (ln ((1023 - a) / a) / B + 1 / 298.15) - 273.15\<close>.
\<close>

theorem temp_b_coefficient:
  "(temp_b_value model = 4250 \<longleftrightarrow> model = ''1.1'' \<or> model = ''1.2'')
   \<and> (model \<noteq> ''1.1'' \<and> model \<noteq> ''1.2'' \<longrightarrow> temp_b_value model = 3975)
   \<and> (fst (analog_read bus pin tr) = Inr a \<and> 0 < a \<and> a < 1023 \<longrightarrow>
        fst (temp bus pin model tr) =
          Inr (Finite (1 / (ln (real_of_int (1023 - a) / real_of_int a)
                              / (if model = ''1.1'' \<or> model = ''1.2'' then 4250 else 3975)
                            + 1 / 298.15) - 273.15)))"
proof -
  have sel: "temp_b_value model = (if model = ''1.1'' \<or> model = ''1.2'' then 4250 else 3975)"
    by (simp add: temp_b_value_def)
  have conv: "fst (temp bus pin model tr) =
          Inr (Finite (1 / (ln (real_of_int (1023 - a) / real_of_int a)
                              / temp_b_value model + 1 / 298.15) - 273.15))"
    if a: "fst (analog_read bus pin tr) = Inr a" "0 < a" "a < 1023"
  proof -
    obtain tr' where r: "analog_read bus pin tr = (Inr a, tr')"
      using a(1) by (cases "analog_read bus pin tr") auto
    have pos: "0 < ln (real_of_int (1023 - a) / real_of_int a) / temp_b_value model + 1 / 298.15"
      using denominator_positive [OF a(2,3), of "temp_b_value model"] sel by auto
    have q: "0 < real_of_int (1023 - a) / real_of_int a"
      using a by simp
    have d1: "float_div (real_of_int (1023 - a) * 10000) (real_of_int a)
        = ret (real_of_int (1023 - a) * 10000 / real_of_int a)"
      using a by (simp add: float_div_def)
    have d2: "math_log (real_of_int (1023 - a) * 10000 / real_of_int a / 10000)
        = ret (ln (real_of_int (1023 - a) / real_of_int a))"
    proof -
      have "x * 10000 / y / 10000 = x / y" for x y :: real
        by simp
      then have "real_of_int (1023 - a) * 10000 / real_of_int a / 10000
          = real_of_int (1023 - a) / real_of_int a" .
      then show ?thesis using q by (simp add: math_log_def)
    qed
    have d3: "float_div 1 (ln (real_of_int (1023 - a) / real_of_int a) / temp_b_value model + 1 / 298.15)
        = ret (1 / (ln (real_of_int (1023 - a) / real_of_int a) / temp_b_value model + 1 / 298.15))"
      using pos by (simp add: float_div_def)
    show ?thesis
      by (simp only: temp_def Let_def io_bind_def r d1 d2 d3 ret_def prod.case sum.case
          isnan.simps if_False fst_conv)
  qed
  show ?thesis using sel conv by auto
qed

theorem temp_b_coefficient_witness:
  "fst (analog_read (steady_bus None (Inr 0) (Inr [0, 2, 0, 0, 0])) 0 []) = Inr 512
   \<and> temp_b_value ''1.2'' = 4250 \<and> temp_b_value ''1.1'' = 4250
   \<and> temp_b_value ''1.0'' = 3975 \<and> temp_b_value ''2.0'' = 3975
   \<and> fst (temp (steady_bus None (Inr 0) (Inr [0, 2, 0, 0, 0])) 0 ''2.0'' [])
       = Inr (Finite (1 / (ln (511 / 512) / 3975 + 1 / 298.15) - 273.15))"
proof -
  have a: "fst (analog_read (steady_bus None (Inr 0) (Inr [0, 2, 0, 0, 0])) 0 []) = Inr 512"
    by (simp add: analog_read_def io_defs cmd_defs steady_bus_def)
  show ?thesis
    using a temp_b_coefficient [of "''1.2''"] temp_b_coefficient [of "''1.1''"]
      temp_b_coefficient [of "''1.0''"]
      temp_b_coefficient [of "''2.0''" "steady_bus None (Inr 0) (Inr [0, 2, 0, 0, 0])" 0 "[]" 512]
    by simp
qed

text \<open>
  C3. An analog value of exactly 0 or exactly 1023 should end in the module's own
  exception, as a NaN result does. The code does not get there: at 0 the division
  \<^verbatim>\<open>float(1023 - a) * 10000 / a\<close> raises \<^verbatim>\<open>ZeroDivisionError\<close>, at 1023 \<^verbatim>\<open>math.log(0.0)\<close>
  raises \<^verbatim>\<open>ValueError\<close>, and neither is caught. The two runs below are the analog reads
  of the blocks \<open>[_, 0, 0, _, _]\<close> (value 0) and \<open>[_, 3, 255, _, _]\<close> (value 1023).
\<close>

theorem temp_at_rail_raises_builtin:
  "fst (analog_read (steady_bus None (Inr 0) (Inr [0, 0, 0, 0, 0])) 0 []) = Inr 0
   \<and> fst (temp (steady_bus None (Inr 0) (Inr [0, 0, 0, 0, 0])) 0 ''1.0'' [])
       = Inl (Builtin ZeroDivisionError)
   \<and> fst (analog_read (steady_bus None (Inr 0) (Inr [0, 3, 255, 0, 0])) 0 []) = Inr 1023
   \<and> fst (temp (steady_bus None (Inr 0) (Inr [0, 3, 255, 0, 0])) 0 ''1.0'' [])
       = Inl (Builtin ValueError)"
  by (simp add: temp_def analog_read_def float_div_def math_log_def io_defs cmd_defs steady_bus_def)

subsection \<open>Exceptions\<close>

lemma gp_shapes:
  "fst (run bus c tr) = Inl (GrovePiException a) \<longrightarrow>
      (\<exists>d. a = Cause (IOError d) \<and> last_call_failed bus (snd (run bus c tr)) d)
      \<or> (a = NoArgs \<and> (c = Dust_sensor_read \<or> c = Encoder_read \<or> c = Flow_read))
      \<or> (a = Message ''NaN'' \<and> (\<exists>pin m. c = Dht pin m))"
  by (cases c)
     (auto simp add: returning_def op_defs try_except_def last_call_failed_def
        float_div_def math_log_def bytearray_def unpack_f_def list_eq_int_def
        io_defs cmd_defs split: option.splits sum.splits if_splits)

lemma bus_failure_surfaces:
  "new_events bus c tr \<noteq> [] \<and> last_call_failed bus (snd (run bus c tr)) d \<longrightarrow>
     fst (run bus c tr) = Inl (GrovePiException (Cause (IOError d)))"
  by (cases c)
     (auto simp add: new_events_def returning_def op_defs try_except_def last_call_failed_def
        float_div_def math_log_def bytearray_def unpack_f_def list_eq_int_def
        io_defs cmd_defs split: option.splits sum.splits if_splits)

lemma failure_ends_operation:
  "d \<in> set (failures bus tr (new_events bus c tr)) \<longleftrightarrow>
     fst (run bus c tr) = Inl (GrovePiException (Cause (IOError d)))"
  by (cases c)
     (auto simp add: new_events_def returning_def op_defs try_except_def
        float_div_def math_log_def bytearray_def unpack_f_def list_eq_int_def
        io_defs cmd_defs split: option.splits sum.splits if_splits)

lemma failure_is_last:
  assumes "d \<in> set (failures bus tr (new_events bus c tr))"
  shows "last_call_failed bus (snd (run bus c tr)) d"
proof -
  have "fst (run bus c tr) = Inl (GrovePiException (Cause (IOError d)))"
    using assms failure_ends_operation [of d bus tr c] by simp
  then show ?thesis
    using gp_shapes [of bus c tr "Cause (IOError d)"] by auto
qed

lemma sentinel_raises:
  "(c = Dust_sensor_read \<or> c = Encoder_read \<or> c = Flow_read)
   \<and> write_reply bus (tr @ [BusWrite 4 1 [catalog_opcode c, 0, 0, 0]]) = None
   \<and> block_reply bus (tr @ [BusWrite 4 1 [catalog_opcode c, 0, 0, 0], Sleep 200,
         BusReadBlock 4 1]) = Inr (255 # rest)
   \<longrightarrow> fst (run bus c tr) = Inl (GrovePiException NoArgs)"
  by (auto simp add: returning_def dust_sensor_read_def encoder_read_def flow_read_def
        io_defs cmd_defs)

lemma isnan_round2: "isnan (round2 f) = isnan f"
  by (cases f) simp_all

lemma dht_nan_raises:
  "write_reply bus (tr @ [BusWrite 4 1 [40, pin, module_type, 0]]) = None
   \<and> byte_reply bus (tr @ [BusWrite 4 1 [40, pin, module_type, 0], Sleep 600, BusReadByte 4])
       = Inr v
   \<and> block_reply bus (tr @ [BusWrite 4 1 [40, pin, module_type, 0], Sleep 600, BusReadByte 4,
         BusReadBlock 4 1]) = Inr (b0 # t0 # t1 # t2 # t3 # h0 # h1 # h2 # h3 # others)
   \<and> list_all (\<lambda>x. 0 \<le> x \<and> x < 256) [t0, t1, t2, t3, h0, h1, h2, h3]
   \<and> (isnan (float32_of_bits (t0 + 256 * t1 + 65536 * t2 + 16777216 * t3))
       \<or> isnan (float32_of_bits (h0 + 256 * h1 + 65536 * h2 + 16777216 * h3)))
   \<longrightarrow> fst (run bus (Dht pin module_type) tr) = Inl (GrovePiException (Message ''NaN''))"
  by (auto simp add: returning_def dht_def try_except_def bytearray_def unpack_f_def
        list_eq_int_def isnan_round2 io_defs cmd_defs)

text \<open>
  C2 (as amended). Every exception the module itself raises is of the one class
  \<open>GrovePiException\<close>; the three causes are told apart by its argument only.
  \<^item> If an operation ends with a \<open>GrovePiException\<close>, then either it wraps the \<open>IOError\<close> of
    the bus call that failed last, or it has no argument and the operation is the dust,
    encoder or flow read, or it carries the message \<open>NaN\<close> and the operation is \<open>dht\<close>:
    there is no other shape.
  \<^item> A failed bus call always ends the operation: whenever the device answers any bus
    call of the operation with a failure \<open>d\<close>, the operation ends with the
    \<open>GrovePiException\<close> wrapping that \<open>IOError\<close>, and the failed call is the last event of
    the run; and an operation ends that way only if one of its bus calls failed so.
  \<^item> In the dust, encoder and flow reads, an acknowledged frame followed by a block whose
    header byte is 255 raises \<open>GrovePiException\<close> without argument.
  \<^item> In \<open>dht\<close>, when the bytes 1..8 of the block are bytes and the temperature or the
    humidity decodes to NaN, \<open>GrovePiException("NaN")\<close> is raised.
\<close>

theorem grovepi_exception_shapes:
  "(fst (run bus c tr) = Inl (GrovePiException a) \<longrightarrow>
      (\<exists>d. a = Cause (IOError d) \<and> last_call_failed bus (snd (run bus c tr)) d)
      \<or> (a = NoArgs \<and> (c = Dust_sensor_read \<or> c = Encoder_read \<or> c = Flow_read))
      \<or> (a = Message ''NaN'' \<and> (\<exists>pin m. c = Dht pin m)))
   \<and> (new_events bus c tr \<noteq> [] \<and> last_call_failed bus (snd (run bus c tr)) d \<longrightarrow>
        fst (run bus c tr) = Inl (GrovePiException (Cause (IOError d))))
   \<and> (d \<in> set (failures bus tr (new_events bus c tr)) \<longrightarrow>
        fst (run bus c tr) = Inl (GrovePiException (Cause (IOError d)))
        \<and> last_call_failed bus (snd (run bus c tr)) d)
   \<and> (fst (run bus c tr) = Inl (GrovePiException (Cause (IOError d))) \<longrightarrow>
        d \<in> set (failures bus tr (new_events bus c tr)))
   \<and> ((c = Dust_sensor_read \<or> c = Encoder_read \<or> c = Flow_read)
       \<and> write_reply bus (tr @ [BusWrite 4 1 [catalog_opcode c, 0, 0, 0]]) = None
       \<and> block_reply bus (tr @ [BusWrite 4 1 [catalog_opcode c, 0, 0, 0], Sleep 200,
             BusReadBlock 4 1]) = Inr (255 # rest)
      \<longrightarrow> fst (run bus c tr) = Inl (GrovePiException NoArgs))
   \<and> (write_reply bus (tr @ [BusWrite 4 1 [40, pin, module_type, 0]]) = None
       \<and> byte_reply bus (tr @ [BusWrite 4 1 [40, pin, module_type, 0], Sleep 600,
             BusReadByte 4]) = Inr v
       \<and> block_reply bus (tr @ [BusWrite 4 1 [40, pin, module_type, 0], Sleep 600,
             BusReadByte 4, BusReadBlock 4 1])
           = Inr (b0 # t0 # t1 # t2 # t3 # h0 # h1 # h2 # h3 # others)
       \<and> list_all (\<lambda>x. 0 \<le> x \<and> x < 256) [t0, t1, t2, t3, h0, h1, h2, h3]
       \<and> (isnan (float32_of_bits (t0 + 256 * t1 + 65536 * t2 + 16777216 * t3))
           \<or> isnan (float32_of_bits (h0 + 256 * h1 + 65536 * h2 + 16777216 * h3)))
      \<longrightarrow> fst (run bus (Dht pin module_type) tr) = Inl (GrovePiException (Message ''NaN'')))
   \<and> exn_class (GrovePiException a) = ''GrovePiException''"
proof -
  have ends: "d \<in> set (failures bus tr (new_events bus c tr)) \<longrightarrow>
        fst (run bus c tr) = Inl (GrovePiException (Cause (IOError d)))
        \<and> last_call_failed bus (snd (run bus c tr)) d"
    using failure_ends_operation [of d bus tr c] failure_is_last [of d bus tr c] by simp
  have only: "fst (run bus c tr) = Inl (GrovePiException (Cause (IOError d))) \<longrightarrow>
        d \<in> set (failures bus tr (new_events bus c tr))"
    using failure_ends_operation [of d bus tr c] by simp
  have cls: "exn_class (GrovePiException a) = ''GrovePiException''"
    by simp
  from gp_shapes [of bus c tr a] bus_failure_surfaces [of bus c tr d] ends only
    sentinel_raises [of c bus tr rest]
    dht_nan_raises [of bus tr pin module_type v b0 t0 t1 t2 t3 h0 h1 h2 h3 others] cls
  show ?thesis
    by (intro conjI)
qed

text \<open>
  Three runs for the witness: an analog read whose discarded byte read fails after the
  frame was acknowledged; a flow read answered with the sentinel; and a \<open>dht\<close> read whose
  temperature bytes \<open>00 00 C8 41\<close> are 25.0 and whose humidity bytes \<open>00 00 C0 FF\<close> are a NaN.
\<close>

theorem grovepi_exception_shapes_witness:
  "new_events (steady_bus None (Inl ''EIO'') (Inr [0, 2, 0, 0, 0])) (Analog_read 0) []
     = [BusWrite 4 1 [3, 0, 0, 0], Sleep 100, BusReadByte 4]
   \<and> ''EIO'' \<in> set (failures (steady_bus None (Inl ''EIO'') (Inr [0, 2, 0, 0, 0])) []
        (new_events (steady_bus None (Inl ''EIO'') (Inr [0, 2, 0, 0, 0])) (Analog_read 0) []))
   \<and> last_call_failed (steady_bus None (Inl ''EIO'') (Inr [0, 2, 0, 0, 0]))
        (snd (run (steady_bus None (Inl ''EIO'') (Inr [0, 2, 0, 0, 0])) (Analog_read 0) [])) ''EIO''
   \<and> fst (run (steady_bus None (Inl ''EIO'') (Inr [0, 2, 0, 0, 0])) (Analog_read 0) [])
       = Inl (GrovePiException (Cause (IOError ''EIO'')))
   \<and> fst (run (steady_bus None (Inr 0) (Inr [255, 9, 9, 9, 9])) Flow_read [])
       = Inl (GrovePiException NoArgs)
   \<and> isnan (float32_of_bits (0 + 256 * 0 + 65536 * 192 + 16777216 * 255))
   \<and> fst (run (steady_bus None (Inr 0) (Inr [0, 0, 0, 200, 65, 0, 0, 192, 255])) (Dht 4 0) [])
       = Inl (GrovePiException (Message ''NaN''))"
  using grovepi_exception_shapes
      [where bus = "steady_bus None (Inl ''EIO'') (Inr [0, 2, 0, 0, 0])" and c = "Analog_read 0"
         and tr = "[]" and a = "Cause (IOError ''EIO'')" and d = "''EIO''"]
    grovepi_exception_shapes
      [where bus = "steady_bus None (Inr 0) (Inr [255, 9, 9, 9, 9])" and c = Flow_read
         and tr = "[]" and rest = "[9, 9, 9, 9]"]
    grovepi_exception_shapes
      [where bus = "steady_bus None (Inr 0) (Inr [0, 0, 0, 200, 65, 0, 0, 192, 255])"
         and tr = "[]" and pin = 4 and module_type = 0 and v = 0 and ?b0.0 = 0
         and ?t0.0 = 0 and ?t1.0 = 0 and ?t2.0 = 200 and ?t3.0 = 65
         and ?h0.0 = 0 and ?h1.0 = 0 and ?h2.0 = 192 and ?h3.0 = 255 and others = "[]"]
  by (simp add: new_events_def returning_def analog_read_def float32_of_bits_def
      last_call_failed_def io_defs cmd_defs steady_bus_def)

text \<open>
  C2 as stated fails: a transport failure, a sentinel block and a NaN decode end in
  exceptions of one and the same class. The NaN run reads the temperature bytes
  \<open>00 00 C0 7F\<close>, the quiet NaN of IEEE-754 in little-endian order.
\<close>

theorem one_exception_class_counterexample:
  "fst (dust_sensor_read (steady_bus (Some ''EIO'') (Inr 0) (Inr [])) [])
     = Inl (GrovePiException (Cause (IOError ''EIO'')))
   \<and> fst (dust_sensor_read (steady_bus None (Inr 0) (Inr [255, 0, 0, 0, 0])) [])
     = Inl (GrovePiException NoArgs)
   \<and> fst (dht (steady_bus None (Inr 0) (Inr [0, 0, 0, 192, 127, 0, 0, 0, 0])) 4 0 [])
     = Inl (GrovePiException (Message ''NaN''))
   \<and> exn_class (GrovePiException (Cause (IOError ''EIO''))) = exn_class (GrovePiException NoArgs)
   \<and> exn_class (GrovePiException NoArgs) = exn_class (GrovePiException (Message ''NaN''))"
  by (simp add: dust_sensor_read_def dht_def try_except_def bytearray_def unpack_f_def
      float32_of_bits_def list_eq_int_def io_defs cmd_defs steady_bus_def)

subsection \<open>How much of a response block is read\<close>









end
